theory Spec2Isabelle
  imports Complex_Main
begin

section \<open>Double-precision arithmetic\<close>

text \<open>
  The arrays \<open>monthly_charges\<close>, \<open>total_charges\<close> and \<open>churn_prob\<close> of
  \<open>data_generator.py\<close> are numpy \<open>float64\<close> arrays. A finite double is modelled by
  the rational number it denotes, and every arithmetic operation rounds its exact result
  to the nearest double, ties to even (53 significant bits, gradual underflow below
  \<open>2^-1022\<close>). The two zeros are one value. Infinities and NaN are not modelled: the
  exponent is unbounded above, and no operation of the generator divides by zero.
\<close>

function bit_length :: "int \<Rightarrow> int" where
  "bit_length n = (if n \<le> 0 then 0 else 1 + bit_length (n div 2))"
  by pat_completeness auto
termination
  by (relation "measure nat") auto

declare bit_length.simps [simp del]

definition pow2 :: "int \<Rightarrow> rat" where
  "pow2 e = (if 0 \<le> e then 2 ^ nat e else 1 / 2 ^ nat (- e))"

definition binary_exponent :: "rat \<Rightarrow> int" where
  \<comment> \<open>the \<open>e\<close> with \<open>2^e \<le> |x| < 2^(e+1)\<close>, for \<open>x \<noteq> 0\<close>\<close>
  "binary_exponent x =
     (let (p, q) = quotient_of \<bar>x\<bar>;
          k = bit_length p - bit_length q
      in if pow2 k \<le> \<bar>x\<bar> then k else k - 1)"

definition round_half_even :: "rat \<Rightarrow> int" where
  "round_half_even x =
     (let f = \<lfloor>x\<rfloor>; r = x - of_int f
      in if r < 1 / 2 then f else if 1 / 2 < r then f + 1
         else if even f then f else f + 1)"

definition round_to_double :: "rat \<Rightarrow> rat" where
  "round_to_double x =
     (if x = 0 then 0
      else let ulp = pow2 (max (binary_exponent x) (- 1022) - 52)
           in of_int (round_half_even (x / ulp)) * ulp)"

definition py_float :: "rat \<Rightarrow> rat" where
  \<comment> \<open>the double that a decimal literal of the source denotes\<close>
  "py_float q = round_to_double q"

definition fadd :: "rat \<Rightarrow> rat \<Rightarrow> rat" where
  "fadd x y = round_to_double (x + y)"

definition fsub :: "rat \<Rightarrow> rat \<Rightarrow> rat" where
  "fsub x y = round_to_double (x - y)"

definition fmul :: "rat \<Rightarrow> rat \<Rightarrow> rat" where
  "fmul x y = round_to_double (x * y)"

definition fdiv :: "rat \<Rightarrow> rat \<Rightarrow> rat" where
  "fdiv x y = round_to_double (x / y)"

definition np_rint :: "rat \<Rightarrow> rat" where
  "np_rint x = of_int (round_half_even x)"

definition np_round2 :: "rat \<Rightarrow> rat" where
  \<comment> \<open>\<open>np.round(x, 2)\<close>: numpy scales by \<open>10**2\<close>, rounds to the nearest integer and
      divides again, each step in double precision\<close>
  "np_round2 x = fdiv (np_rint (fmul x 100)) 100"

definition float_of_int :: "int \<Rightarrow> rat" where
  \<comment> \<open>the \<open>int64\<close> to \<open>float64\<close> conversion of mixed arithmetic\<close>
  "float_of_int k = round_to_double (of_int k)"

section \<open>Boolean-mask indexing\<close>

text \<open>
  \<open>a[mask]\<close> selects the cells where the mask holds, \<open>a[mask] = vs\<close> writes \<open>vs\<close>
  back to them in order. numpy raises when the sizes disagree; every use below passes
  exactly \<open>mask.sum()\<close> values, so that branch of \<open>scatter\<close> leaves the cell as it is.
\<close>

fun gather :: "bool list \<Rightarrow> 'a list \<Rightarrow> 'a list" where
  "gather (m # ms) (x # xs) = (if m then x # gather ms xs else gather ms xs)"
| "gather _ _ = []"

fun scatter :: "bool list \<Rightarrow> 'a list \<Rightarrow> 'a list \<Rightarrow> 'a list" where
  "scatter (m # ms) (x # xs) vs =
     (if m then (case vs of v # vs' \<Rightarrow> v # scatter ms xs vs' | [] \<Rightarrow> x # scatter ms xs [])
      else x # scatter ms xs vs)"
| "scatter _ xs _ = xs"

definition mask_sum :: "bool list \<Rightarrow> nat" where
  "mask_sum bs = length (filter (\<lambda>m. m) bs)"

definition rank :: "bool list \<Rightarrow> nat \<Rightarrow> nat" where
  \<comment> \<open>how many selected cells precede cell \<open>i\<close>\<close>
  "rank bs i = mask_sum (take i bs)"

definition masked_iadd :: "bool list \<Rightarrow> rat list \<Rightarrow> rat list \<Rightarrow> rat list" where
  \<comment> \<open>\<open>a[mask] += vs\<close>\<close>
  "masked_iadd bs a vs = scatter bs a (map2 fadd (gather bs a) vs)"

definition masked_isub :: "bool list \<Rightarrow> rat list \<Rightarrow> rat list \<Rightarrow> rat list" where
  \<comment> \<open>\<open>a[mask] -= vs\<close>\<close>
  "masked_isub bs a vs = scatter bs a (map2 fsub (gather bs a) vs)"

definition masked_iadd_scalar :: "bool list \<Rightarrow> rat list \<Rightarrow> rat \<Rightarrow> rat list" where
  \<comment> \<open>\<open>a[mask] += c\<close>\<close>
  "masked_iadd_scalar bs a c = scatter bs a (map (\<lambda>x. fadd x c) (gather bs a))"

definition masked_isub_scalar :: "bool list \<Rightarrow> rat list \<Rightarrow> rat \<Rightarrow> rat list" where
  \<comment> \<open>\<open>a[mask] -= c\<close>\<close>
  "masked_isub_scalar bs a c = scatter bs a (map (\<lambda>x. fsub x c) (gather bs a))"

definition masked_assign_scalar :: "bool list \<Rightarrow> rat list \<Rightarrow> rat \<Rightarrow> rat list" where
  \<comment> \<open>\<open>a[mask] = c\<close>\<close>
  "masked_assign_scalar bs a c = scatter bs a (replicate (mask_sum bs) c)"

section \<open>The random source\<close>

text \<open>
  \<open>np.random\<close> is the only source of nondeterminism. Each call site of the generator has
  a field in the record \<open>rng\<close>: the function that gives the \<open>k\<close>-th value the call
  produces. A categorical draw is an index into the list of choices, taken modulo its
  length, and a \<open>randint\<close> draw is taken modulo the width of its range, so that every
  value of these fields denotes an outcome the library can produce. A floating-point
  draw is taken as it is; a theorem that needs the range of such a draw states it. The
  probabilities \<open>p=[...]\<close> of a call weigh the outcomes and do not change which outcomes
  exist; they are not modelled.
\<close>

record rng =
  gender_draw :: "nat \<Rightarrow> nat"
  senior_citizen_draw :: "nat \<Rightarrow> nat"
  partner_draw :: "nat \<Rightarrow> nat"
  dependents_draw :: "nat \<Rightarrow> nat"
  tenure_draw :: "nat \<Rightarrow> nat"
  phone_service_draw :: "nat \<Rightarrow> nat"
  multiple_lines_draw :: "nat \<Rightarrow> nat"
  internet_service_draw :: "nat \<Rightarrow> nat"
  online_security_draw :: "nat \<Rightarrow> nat"
  online_backup_draw :: "nat \<Rightarrow> nat"
  device_protection_draw :: "nat \<Rightarrow> nat"
  tech_support_draw :: "nat \<Rightarrow> nat"
  streaming_tv_draw :: "nat \<Rightarrow> nat"
  streaming_movies_draw :: "nat \<Rightarrow> nat"
  contract_draw :: "nat \<Rightarrow> nat"
  paperless_billing_draw :: "nat \<Rightarrow> nat"
  payment_method_draw :: "nat \<Rightarrow> nat"
  monthly_base_draw :: "nat \<Rightarrow> rat"
  fiber_draw :: "nat \<Rightarrow> rat"
  no_internet_draw :: "nat \<Rightarrow> rat"
  noise_draw :: "nat \<Rightarrow> rat"
  churn_draw :: "nat \<Rightarrow> rat"

definition choice1 :: "'a list \<Rightarrow> nat \<Rightarrow> 'a" where
  \<comment> \<open>\<open>np.random.choice(a)\<close>: one element of the non-empty list \<open>a\<close>\<close>
  "choice1 a k = a ! (k mod length a)"

definition np_random_choice :: "'a list \<Rightarrow> nat \<Rightarrow> (nat \<Rightarrow> nat) \<Rightarrow> 'a list" where
  \<comment> \<open>\<open>np.random.choice(a, n)\<close>\<close>
  "np_random_choice a n draw = map (\<lambda>i. choice1 a (draw i)) [0..<n]"

definition np_random_randint :: "int \<Rightarrow> int \<Rightarrow> nat \<Rightarrow> (nat \<Rightarrow> nat) \<Rightarrow> int list" where
  \<comment> \<open>\<open>np.random.randint(low, high, n)\<close>: integers of \<open>[low, high)\<close>\<close>
  "np_random_randint low high n draw =
     map (\<lambda>i. low + int (draw i) mod (high - low)) [0..<n]"

definition np_random_sample :: "nat \<Rightarrow> (nat \<Rightarrow> rat) \<Rightarrow> rat list" where
  \<comment> \<open>\<open>np.random.uniform(lo, hi, n)\<close>, \<open>np.random.normal(mu, sd, n)\<close> and
      \<open>np.random.rand(n)\<close>: \<open>n\<close> doubles\<close>
  "np_random_sample n draw = map draw [0..<n]"

section \<open>The columns of \<open>generate_customer_churn_data\<close>\<close>

text \<open>
  One definition for each array the function builds, in the order of the source and
  under the source's names; \<open>n\<close> is \<open>num_samples\<close>. An array that is assigned more
  than once has one definition for each version.
\<close>

definition gender :: "nat \<Rightarrow> rng \<Rightarrow> string list" where
  "gender n g = np_random_choice [''Male'', ''Female''] n (gender_draw g)"

definition senior_citizen :: "nat \<Rightarrow> rng \<Rightarrow> int list" where
  "senior_citizen n g = np_random_choice [0, 1] n (senior_citizen_draw g)"

definition partner :: "nat \<Rightarrow> rng \<Rightarrow> string list" where
  "partner n g = np_random_choice [''Yes'', ''No''] n (partner_draw g)"

definition dependents :: "nat \<Rightarrow> rng \<Rightarrow> string list" where
  "dependents n g = np_random_choice [''Yes'', ''No''] n (dependents_draw g)"

definition tenure :: "nat \<Rightarrow> rng \<Rightarrow> int list" where
  "tenure n g = np_random_randint 1 72 n (tenure_draw g)"

definition phone_service :: "nat \<Rightarrow> rng \<Rightarrow> string list" where
  "phone_service n g = np_random_choice [''Yes'', ''No''] n (phone_service_draw g)"

definition u16 :: "string \<Rightarrow> string" where
  \<comment> \<open>a cell of a \<open>dtype='U16'\<close> array keeps at most 16 characters\<close>
  "u16 s = take 16 s"

definition np_empty_u16 :: "nat \<Rightarrow> string list" where
  \<comment> \<open>\<open>np.empty(n, dtype='U16')\<close>: the cells are not initialised; the loop below
      assigns every one of them\<close>
  "np_empty_u16 n = replicate n []"

definition multiple_lines_body ::
  "string list \<Rightarrow> (nat \<Rightarrow> nat) \<Rightarrow> nat \<Rightarrow> string list \<times> nat \<Rightarrow> string list \<times> nat" where
  \<comment> \<open>one iteration of the loop over \<open>range(num_samples)\<close>; the state is the array and
      the number of scalar draws made so far\<close>
  "multiple_lines_body phone draw i st =
     (case st of (ml, k) \<Rightarrow>
        if phone ! i = ''No'' then (ml[i := u16 ''No phone service''], k)
        else (ml[i := u16 (choice1 [''No'', ''Yes''] (draw k))], Suc k))"

definition multiple_lines :: "nat \<Rightarrow> rng \<Rightarrow> string list" where
  "multiple_lines n g =
     fst (fold (multiple_lines_body (phone_service n g) (multiple_lines_draw g)) [0..<n]
            (np_empty_u16 n, 0))"

definition internet_service :: "nat \<Rightarrow> rng \<Rightarrow> string list" where
  "internet_service n g =
     np_random_choice [''DSL'', ''Fiber optic'', ''No''] n (internet_service_draw g)"

definition online_security :: "nat \<Rightarrow> rng \<Rightarrow> string list" where
  "online_security n g =
     np_random_choice [''No'', ''Yes'', ''No internet service''] n (online_security_draw g)"

definition online_backup :: "nat \<Rightarrow> rng \<Rightarrow> string list" where
  "online_backup n g =
     np_random_choice [''No'', ''Yes'', ''No internet service''] n (online_backup_draw g)"

definition device_protection :: "nat \<Rightarrow> rng \<Rightarrow> string list" where
  "device_protection n g =
     np_random_choice [''No'', ''Yes'', ''No internet service''] n (device_protection_draw g)"

definition tech_support :: "nat \<Rightarrow> rng \<Rightarrow> string list" where
  "tech_support n g =
     np_random_choice [''No'', ''Yes'', ''No internet service''] n (tech_support_draw g)"

definition streaming_tv :: "nat \<Rightarrow> rng \<Rightarrow> string list" where
  "streaming_tv n g =
     np_random_choice [''No'', ''Yes'', ''No internet service''] n (streaming_tv_draw g)"

definition streaming_movies :: "nat \<Rightarrow> rng \<Rightarrow> string list" where
  "streaming_movies n g =
     np_random_choice [''No'', ''Yes'', ''No internet service''] n (streaming_movies_draw g)"

definition contract :: "nat \<Rightarrow> rng \<Rightarrow> string list" where
  "contract n g =
     np_random_choice [''Month-to-month'', ''One year'', ''Two year''] n (contract_draw g)"

definition paperless_billing :: "nat \<Rightarrow> rng \<Rightarrow> string list" where
  "paperless_billing n g = np_random_choice [''Yes'', ''No''] n (paperless_billing_draw g)"

definition payment_method :: "nat \<Rightarrow> rng \<Rightarrow> string list" where
  "payment_method n g =
     np_random_choice
       [''Electronic check'', ''Mailed check'', ''Bank transfer (automatic)'',
        ''Credit card (automatic)''] n (payment_method_draw g)"

text \<open>Lines 85 to 92: the monthly charges.\<close>

definition is_fiber :: "nat \<Rightarrow> rng \<Rightarrow> bool list" where
  \<comment> \<open>\<open>internet_service == 'Fiber optic'\<close>\<close>
  "is_fiber n g = map (\<lambda>s. s = ''Fiber optic'') (internet_service n g)"

definition is_no_internet :: "nat \<Rightarrow> rng \<Rightarrow> bool list" where
  \<comment> \<open>\<open>internet_service == 'No'\<close>\<close>
  "is_no_internet n g = map (\<lambda>s. s = ''No'') (internet_service n g)"

definition monthly_charges_base :: "nat \<Rightarrow> rng \<Rightarrow> rat list" where
  \<comment> \<open>\<open>np.random.uniform(20, 120, num_samples)\<close>\<close>
  "monthly_charges_base n g = np_random_sample n (monthly_base_draw g)"

definition monthly_charges_fiber :: "nat \<Rightarrow> rng \<Rightarrow> rat list" where
  \<comment> \<open>after \<open>monthly_charges[...] += np.random.uniform(10, 30, (...).sum())\<close>\<close>
  "monthly_charges_fiber n g =
     masked_iadd (is_fiber n g) (monthly_charges_base n g)
       (np_random_sample (mask_sum (is_fiber n g)) (fiber_draw g))"

definition monthly_charges_raw :: "nat \<Rightarrow> rng \<Rightarrow> rat list" where
  \<comment> \<open>after \<open>monthly_charges[...] -= np.random.uniform(10, 20, (...).sum())\<close>\<close>
  "monthly_charges_raw n g =
     masked_isub (is_no_internet n g) (monthly_charges_fiber n g)
       (np_random_sample (mask_sum (is_no_internet n g)) (no_internet_draw g))"

definition monthly_charges :: "nat \<Rightarrow> rng \<Rightarrow> rat list" where
  \<comment> \<open>\<open>np.round(monthly_charges, 2)\<close>\<close>
  "monthly_charges n g = map np_round2 (monthly_charges_raw n g)"

text \<open>Lines 96 to 102: the total charges.\<close>

definition total_charges_product :: "nat \<Rightarrow> rng \<Rightarrow> rat list" where
  \<comment> \<open>\<open>monthly_charges * tenure\<close>\<close>
  "total_charges_product n g =
     map2 fmul (monthly_charges n g) (map float_of_int (tenure n g))"

definition total_charges_noisy :: "nat \<Rightarrow> rng \<Rightarrow> rat list" where
  \<comment> \<open>after \<open>total_charges += np.random.normal(0, 50, num_samples)\<close>\<close>
  "total_charges_noisy n g =
     map2 fadd (total_charges_product n g) (np_random_sample n (noise_draw g))"

definition total_charges_clamped :: "nat \<Rightarrow> rng \<Rightarrow> rat list" where
  \<comment> \<open>after \<open>total_charges[total_charges < 0] = 0\<close>\<close>
  "total_charges_clamped n g =
     masked_assign_scalar (map (\<lambda>x. x < 0) (total_charges_noisy n g))
       (total_charges_noisy n g) 0"

definition total_charges :: "nat \<Rightarrow> rng \<Rightarrow> rat list" where
  \<comment> \<open>\<open>np.round(total_charges, 2)\<close>\<close>
  "total_charges n g = map np_round2 (total_charges_clamped n g)"

text \<open>Lines 106 to 125: the churn probability and the label.\<close>

definition churn_prob_0 :: "nat \<Rightarrow> rng \<Rightarrow> rat list" where
  \<comment> \<open>\<open>np.zeros(num_samples)\<close>\<close>
  "churn_prob_0 n g = replicate n 0"

definition churn_prob_1 :: "nat \<Rightarrow> rng \<Rightarrow> rat list" where
  \<comment> \<open>after \<open>churn_prob[contract == 'Month-to-month'] += 0.3\<close>\<close>
  "churn_prob_1 n g =
     masked_iadd_scalar (map (\<lambda>c. c = ''Month-to-month'') (contract n g))
       (churn_prob_0 n g) (py_float (3 / 10))"

definition churn_prob_2 :: "nat \<Rightarrow> rng \<Rightarrow> rat list" where
  \<comment> \<open>after \<open>churn_prob[tenure < 12] += 0.2\<close>\<close>
  "churn_prob_2 n g =
     masked_iadd_scalar (map (\<lambda>t. t < 12) (tenure n g))
       (churn_prob_1 n g) (py_float (2 / 10))"

definition churn_prob_3 :: "nat \<Rightarrow> rng \<Rightarrow> rat list" where
  \<comment> \<open>after \<open>churn_prob[monthly_charges > 80] += 0.15\<close>\<close>
  "churn_prob_3 n g =
     masked_iadd_scalar (map (\<lambda>m. 80 < m) (monthly_charges n g))
       (churn_prob_2 n g) (py_float (15 / 100))"

definition churn_prob_4 :: "nat \<Rightarrow> rng \<Rightarrow> rat list" where
  \<comment> \<open>after \<open>churn_prob[tech_support == 'No'] += 0.2\<close>\<close>
  "churn_prob_4 n g =
     masked_iadd_scalar (map (\<lambda>s. s = ''No'') (tech_support n g))
       (churn_prob_3 n g) (py_float (2 / 10))"

definition churn_prob :: "nat \<Rightarrow> rng \<Rightarrow> rat list" where
  \<comment> \<open>after \<open>churn_prob[contract == 'Two year'] -= 0.3\<close>\<close>
  "churn_prob n g =
     masked_isub_scalar (map (\<lambda>c. c = ''Two year'') (contract n g))
       (churn_prob_4 n g) (py_float (3 / 10))"

definition churn :: "nat \<Rightarrow> rng \<Rightarrow> int list" where
  \<comment> \<open>\<open>(np.random.rand(num_samples) < churn_prob).astype(int)\<close>, which replaces the
      zeros of line 106\<close>
  "churn n g =
     map2 (\<lambda>u p. if u < p then 1 else 0) (np_random_sample n (churn_draw g)) (churn_prob n g)"

section \<open>The table\<close>

datatype column = StrCol "string list" | IntCol "int list" | FloatCol "rat list"

fun col_len :: "column \<Rightarrow> nat" where
  "col_len (StrCol xs) = length xs"
| "col_len (IntCol xs) = length xs"
| "col_len (FloatCol xs) = length xs"

type_synonym dataframe = "(string \<times> column) list"

datatype error =
  ValueError | TypeError | FileNotFoundError | FileExistsError | IsADirectoryError

datatype pyarg = PyInt int | PyFloat rat

definition np_size :: "pyarg \<Rightarrow> error + nat" where
  \<comment> \<open>what numpy makes of a \<open>size\<close> argument: a negative integer is a
      \<open>ValueError\<close> (negative dimensions), a float is a \<open>TypeError\<close>\<close>
  "np_size a =
     (case a of
        PyInt k \<Rightarrow> if k < 0 then Inl ValueError else Inr (nat k)
      | PyFloat x \<Rightarrow> Inl TypeError)"

definition pd_DataFrame :: "(string \<times> column) list \<Rightarrow> error + dataframe" where
  \<comment> \<open>\<open>pd.DataFrame(dict)\<close> keeps the insertion order of the keys and raises when the
      arrays differ in length\<close>
  "pd_DataFrame cols =
     (case cols of
        [] \<Rightarrow> Inr []
      | c # cs \<Rightarrow>
          if list_all (\<lambda>d. col_len (snd d) = col_len (snd c)) cs then Inr cols
          else Inl ValueError)"

definition nrows :: "dataframe \<Rightarrow> nat" where
  "nrows df = (case df of [] \<Rightarrow> 0 | c # cs \<Rightarrow> col_len (snd c))"

definition data_columns :: "nat \<Rightarrow> rng \<Rightarrow> (string \<times> column) list" where
  \<comment> \<open>the dictionary of lines 129 to 150\<close>
  "data_columns n g =
     [(''gender'', StrCol (gender n g)),
      (''SeniorCitizen'', IntCol (senior_citizen n g)),
      (''Partner'', StrCol (partner n g)),
      (''Dependents'', StrCol (dependents n g)),
      (''tenure'', IntCol (tenure n g)),
      (''PhoneService'', StrCol (phone_service n g)),
      (''MultipleLines'', StrCol (multiple_lines n g)),
      (''InternetService'', StrCol (internet_service n g)),
      (''OnlineSecurity'', StrCol (online_security n g)),
      (''OnlineBackup'', StrCol (online_backup n g)),
      (''DeviceProtection'', StrCol (device_protection n g)),
      (''TechSupport'', StrCol (tech_support n g)),
      (''StreamingTV'', StrCol (streaming_tv n g)),
      (''StreamingMovies'', StrCol (streaming_movies n g)),
      (''Contract'', StrCol (contract n g)),
      (''PaperlessBilling'', StrCol (paperless_billing n g)),
      (''PaymentMethod'', StrCol (payment_method n g)),
      (''MonthlyCharges'', FloatCol (monthly_charges n g)),
      (''TotalCharges'', FloatCol (total_charges n g)),
      (''Churn'', IntCol (churn n g))]"

definition build_table :: "pyarg \<Rightarrow> rng \<Rightarrow> error + dataframe" where
  \<comment> \<open>lines 30 to 150: the first sampling call, \<open>np.random.choice(..., num_samples)\<close>,
      raises on a size numpy rejects; every later call receives the same size\<close>
  "build_table num_samples g =
     (case np_size num_samples of
        Inl e \<Rightarrow> Inl e
      | Inr n \<Rightarrow> pd_DataFrame (data_columns n g))"

section \<open>Paths, directories and the written file\<close>

text \<open>
  \<open>os.path.dirname\<close>, \<open>os.path.split\<close>, \<open>os.path.join\<close> and \<open>os.makedirs\<close> follow
  the POSIX versions of the Python standard library. The file system is the list of
  directories and the files that exist. Paths are compared as written, up to trailing
  separators: \<open>.\<close> and \<open>..\<close> components and symbolic links are not resolved. A
  relative path is relative to the current directory, which exists. An operation that
  raises returns the error with the file system as it is at that point. The two
  \<open>logging.info\<close> lines are not modelled.
\<close>

datatype cell = StrCell string | IntCell int | FloatCell rat

record csv =
  header :: "string list"
  rows :: "cell list list"

record filesystem =
  dirs :: "string list"
  files :: "(string \<times> csv) list"

definition is_sep :: "char \<Rightarrow> bool" where
  "is_sep c = (c = CHR ''/'')"

definition rfind_sep :: "string \<Rightarrow> nat" where
  \<comment> \<open>\<open>p.rfind('/') + 1\<close>\<close>
  "rfind_sep p = length p - length (takeWhile (\<lambda>c. \<not> is_sep c) (rev p))"

definition rstrip_sep :: "string \<Rightarrow> string" where
  \<comment> \<open>\<open>head.rstrip('/')\<close>\<close>
  "rstrip_sep p = rev (dropWhile is_sep (rev p))"

definition os_path_split :: "string \<Rightarrow> string \<times> string" where
  "os_path_split p =
     (let i = rfind_sep p; head = take i p; tail = drop i p
      in if head \<noteq> [] \<and> \<not> list_all is_sep head then (rstrip_sep head, tail)
         else (head, tail))"

definition os_path_dirname :: "string \<Rightarrow> string" where
  "os_path_dirname p =
     (let i = rfind_sep p; head = take i p
      in if head \<noteq> [] \<and> \<not> list_all is_sep head then rstrip_sep head else head)"

definition join_step :: "string \<Rightarrow> string \<Rightarrow> string" where
  "join_step path b =
     (if b \<noteq> [] \<and> is_sep (hd b) then b
      else if path = [] \<or> is_sep (last path) then path @ b
      else path @ ''/'' @ b)"

definition os_path_join :: "string \<Rightarrow> string list \<Rightarrow> string" where
  "os_path_join a ps = foldl join_step a ps"

definition same_path :: "string \<Rightarrow> string" where
  \<comment> \<open>the name under which the file system knows a path: trailing separators
      dropped, the root kept\<close>
  "same_path p = (if list_all is_sep p then p else rstrip_sep p)"

definition os_path_isdir :: "filesystem \<Rightarrow> string \<Rightarrow> bool" where
  "os_path_isdir fs p =
     (p \<noteq> [] \<and> (list_all is_sep p \<or> same_path p \<in> set (dirs fs)))"

definition os_path_exists :: "filesystem \<Rightarrow> string \<Rightarrow> bool" where
  "os_path_exists fs p = (os_path_isdir fs p \<or> p \<in> set (map fst (files fs)))"

definition parent_exists :: "filesystem \<Rightarrow> string \<Rightarrow> bool" where
  "parent_exists fs p =
     (let d = os_path_dirname (same_path p) in d = [] \<or> os_path_isdir fs d)"

definition os_mkdir :: "filesystem \<Rightarrow> string \<Rightarrow> error option \<times> filesystem" where
  "os_mkdir fs p =
     (if p = [] then (Some FileNotFoundError, fs)
      else if os_path_exists fs p then (Some FileExistsError, fs)
      else if \<not> parent_exists fs p then (Some FileNotFoundError, fs)
      else (None, fs\<lparr>dirs := same_path p # dirs fs\<rparr>))"

definition makedirs_split :: "string \<Rightarrow> string \<times> string" where
  \<comment> \<open>\<open>head, tail = path.split(name)\<close>, and once more on \<open>head\<close> when \<open>tail\<close> is
      empty\<close>
  "makedirs_split name =
     (let ht = os_path_split name in if snd ht = [] then os_path_split (fst ht) else ht)"

definition makedirs_leaf :: "filesystem \<Rightarrow> string \<Rightarrow> bool \<Rightarrow> error option \<times> filesystem" where
  \<comment> \<open>the final \<open>mkdir(name)\<close> of \<open>os.makedirs\<close> with its \<open>except OSError\<close>\<close>
  "makedirs_leaf fs name exist_ok =
     (case os_mkdir fs name of
        (None, fs') \<Rightarrow> (None, fs')
      | (Some e, fs') \<Rightarrow>
          if \<not> exist_ok \<or> \<not> os_path_isdir fs' name then (Some e, fs') else (None, fs'))"

function os_makedirs :: "filesystem \<Rightarrow> string \<Rightarrow> bool \<Rightarrow> error option \<times> filesystem" where
  "os_makedirs fs name exist_ok =
     (if fst (makedirs_split name) \<noteq> [] \<and> snd (makedirs_split name) \<noteq> []
         \<and> \<not> os_path_exists fs (fst (makedirs_split name))
      then
        (case os_makedirs fs (fst (makedirs_split name)) exist_ok of
           (Some e, fs') \<Rightarrow>
             if e \<noteq> FileExistsError then (Some e, fs')
             else if snd (makedirs_split name) = ''.'' then (None, fs')
             else makedirs_leaf fs' name exist_ok
         | (None, fs') \<Rightarrow>
             if snd (makedirs_split name) = ''.'' then (None, fs')
             else makedirs_leaf fs' name exist_ok)
      else makedirs_leaf fs name exist_ok)"
  by pat_completeness auto
termination
proof (relation "measure (\<lambda>(fs, name, exist_ok). length name)", goal_cases)
  case 1
  show ?case by simp
next
  case (2 fs name exist_ok)
  have strip: "length (rstrip_sep p) \<le> length p" for p
    using length_dropWhile_le [of is_sep "rev p"] by (simp add: rstrip_sep_def)
  have split: "length (fst (os_path_split p)) + length (snd (os_path_split p)) \<le> length p"
    for p
    using strip [of "take (rfind_sep p) p"] by (auto simp: os_path_split_def Let_def)
  have tail: "snd (makedirs_split name) \<noteq> []"
    using 2 by simp
  have "length (fst (makedirs_split name)) < length name"
  proof (cases "snd (os_path_split name) = []")
    case True
    then have "snd (os_path_split (fst (os_path_split name))) \<noteq> []"
      using tail by (simp add: makedirs_split_def Let_def)
    then have "length (fst (os_path_split (fst (os_path_split name))))
        < length (fst (os_path_split name))"
      using split [of "fst (os_path_split name)"]
      by (cases "snd (os_path_split (fst (os_path_split name)))") auto
    then show ?thesis
      using split [of name] True by (simp add: makedirs_split_def Let_def)
  next
    case False
    then show ?thesis
      using split [of name]
      by (cases "snd (os_path_split name)") (auto simp: makedirs_split_def Let_def)
  qed
  then show ?case by simp
qed

declare os_makedirs.simps [simp del]

definition row_of :: "dataframe \<Rightarrow> nat \<Rightarrow> cell list" where
  "row_of df i =
     map (\<lambda>c. case snd c of
                 StrCol xs \<Rightarrow> StrCell (xs ! i)
               | IntCol xs \<Rightarrow> IntCell (xs ! i)
               | FloatCol xs \<Rightarrow> FloatCell (xs ! i)) df"

definition to_csv :: "dataframe \<Rightarrow> bool \<Rightarrow> csv" where
  \<comment> \<open>the text \<open>DataFrame.to_csv\<close> writes, as its lines of fields: a header row with the
      column names, then one row for each record; with \<open>index=True\<close> each row starts with
      its row number, under an empty header field\<close>
  "to_csv df index =
     (if index
      then \<lparr>header = [] # map fst df,
            rows = map (\<lambda>i. IntCell (int i) # row_of df i) [0..<nrows df]\<rparr>
      else \<lparr>header = map fst df, rows = map (row_of df) [0..<nrows df]\<rparr>)"

definition write_file :: "filesystem \<Rightarrow> string \<Rightarrow> csv \<Rightarrow> error option \<times> filesystem" where
  \<comment> \<open>opening \<open>p\<close> for writing: the directory must exist, an existing file is replaced\<close>
  "write_file fs p content =
     (if p = [] \<or> \<not> parent_exists fs p then (Some FileNotFoundError, fs)
      else if os_path_isdir fs p then (Some IsADirectoryError, fs)
      else (None, fs\<lparr>files := (p, content) # filter (\<lambda>f. fst f \<noteq> p) (files fs)\<rparr>))"

definition generate_customer_churn_data ::
  "string \<Rightarrow> pyarg option \<Rightarrow> string option \<Rightarrow> rng \<Rightarrow> filesystem \<Rightarrow> error option \<times> filesystem" where
  "generate_customer_churn_data script_file num_samples_arg output_path_arg g fs =
     (let num_samples = (case num_samples_arg of None \<Rightarrow> PyInt 1000 | Some a \<Rightarrow> a)
      in case build_table num_samples g of
           Inl e \<Rightarrow> (Some e, fs)
         | Inr df \<Rightarrow>
            (let output_path =
                   (case output_path_arg of
                      None \<Rightarrow>
                        os_path_join (os_path_dirname script_file)
                          [''..'', ''data'', ''customer_churn_data.csv'']
                    | Some p \<Rightarrow> p);
                 output_dir = os_path_dirname output_path
             in (case os_makedirs fs output_dir True of
                   (Some e, fs') \<Rightarrow> (Some e, fs')
                 | (None, fs') \<Rightarrow> write_file fs' output_path (to_csv df False))))"

definition script_main :: "string \<Rightarrow> rng \<Rightarrow> filesystem \<Rightarrow> error option \<times> filesystem" where
  \<comment> \<open>the \<open>if __name__ == "__main__"\<close> block\<close>
  "script_main script_file g fs =
     generate_customer_churn_data script_file (Some (PyInt 2000))
       (Some (os_path_join (os_path_dirname script_file)
                [''..'', ''data'', ''customer_churn_data.csv'']))
       g fs"

section \<open>A sample run\<close>

definition rng_example :: rng where
  "rng_example =
     \<lparr>gender_draw = (\<lambda>k. k), senior_citizen_draw = (\<lambda>k. 0), partner_draw = (\<lambda>k. k),
      dependents_draw = (\<lambda>k. 1), tenure_draw = (\<lambda>k. 4 + 20 * k),
      phone_service_draw = (\<lambda>k. k), multiple_lines_draw = (\<lambda>k. 1),
      internet_service_draw = (\<lambda>k. k + 1), online_security_draw = (\<lambda>k. 2),
      online_backup_draw = (\<lambda>k. 1), device_protection_draw = (\<lambda>k. 0),
      tech_support_draw = (\<lambda>k. k), streaming_tv_draw = (\<lambda>k. k),
      streaming_movies_draw = (\<lambda>k. 2 * k), contract_draw = (\<lambda>k. 2 * k),
      paperless_billing_draw = (\<lambda>k. 0), payment_method_draw = (\<lambda>k. 3 * k),
      monthly_base_draw = (\<lambda>k. if k = 0 then 201 / 2 else 181 / 2), fiber_draw = (\<lambda>k. 49 / 4),
      no_internet_draw = (\<lambda>k. 31 / 2),
      noise_draw = (\<lambda>k. if k = 0 then 81 / 8 else - 5000),
      churn_draw = (\<lambda>k. 1 / 2)\<rparr>"

definition fs_empty :: filesystem where "fs_empty = \<lparr>dirs = [], files = []\<rparr>"

section \<open>The per-record rules of the specification\<close>

text \<open>
  The generator works on whole columns. The specification speaks of one record at a
  time; its rules are written down here, to be compared with the columns.
\<close>

definition churn_prob_record :: "string \<Rightarrow> int \<Rightarrow> rat \<Rightarrow> string \<Rightarrow> rat" where
  \<comment> \<open>start at 0, then adjust: +0.3 Month-to-month, +0.2 tenure below 12, +0.15 monthly
      charges above 80, +0.2 no tech support, -0.3 Two year\<close>
  "churn_prob_record contract_i tenure_i monthly_i tech_i =
     (let p = 0;
          p = (if contract_i = ''Month-to-month'' then fadd p (py_float (3 / 10)) else p);
          p = (if tenure_i < 12 then fadd p (py_float (2 / 10)) else p);
          p = (if 80 < monthly_i then fadd p (py_float (15 / 100)) else p);
          p = (if tech_i = ''No'' then fadd p (py_float (2 / 10)) else p);
          p = (if contract_i = ''Two year'' then fsub p (py_float (3 / 10)) else p)
      in p)"


definition multiple_lines_ok :: "string list \<Rightarrow> string list \<Rightarrow> nat \<Rightarrow> bool" where
  \<comment> \<open>the rule for record \<open>i\<close>; it is the invariant of the loop of lines 53 to 58\<close>
  "multiple_lines_ok phone ml i =
     (if phone ! i = ''No'' then ml ! i = ''No phone service''
      else ml ! i = ''No'' \<or> ml ! i = ''Yes'')"

definition spec_section3_order :: "string list" where
  \<comment> \<open>the fields in the order of the table of section 3 of the specification, each
      under the name the generator gives its column\<close>
  "spec_section3_order =
     [''gender'', ''SeniorCitizen'', ''Partner'', ''Dependents'', ''PhoneService'',
      ''PaperlessBilling'', ''tenure'', ''MultipleLines'', ''InternetService'',
      ''OnlineSecurity'', ''OnlineBackup'', ''DeviceProtection'', ''TechSupport'',
      ''StreamingTV'', ''StreamingMovies'', ''Contract'', ''PaymentMethod'',
      ''MonthlyCharges'', ''TotalCharges'', ''Churn'']"

section \<open>Masked updates, cell by cell\<close>

lemma mask_sum_Cons: "mask_sum (b # bs) = (if b then Suc (mask_sum bs) else mask_sum bs)"
  by (simp add: mask_sum_def)

lemma mask_sum_Nil: "mask_sum [] = 0"
  by (simp add: mask_sum_def)

lemma rank_0: "rank bs 0 = 0"
  by (simp add: rank_def mask_sum_def)

lemma rank_Suc: "rank (b # bs) (Suc i) = (if b then Suc (rank bs i) else rank bs i)"
  by (simp add: rank_def mask_sum_def)

lemma length_gather: "length bs = length xs \<Longrightarrow> length (gather bs xs) = mask_sum bs"
  by (induction bs xs rule: gather.induct) (auto simp: mask_sum_Cons mask_sum_Nil)

lemma length_scatter: "length (scatter bs xs vs) = length xs"
  by (induction bs xs vs rule: scatter.induct) (auto split: list.splits)

lemma rank_less: "i < length bs \<Longrightarrow> bs ! i \<Longrightarrow> rank bs i < mask_sum bs"
proof (induction bs arbitrary: i)
  case Nil
  then show ?case by simp
next
  case (Cons b bs)
  then show ?case
    by (cases i) (auto simp: rank_0 rank_Suc mask_sum_Cons)
qed

lemma gather_nth:
  "length bs = length xs \<Longrightarrow> i < length xs \<Longrightarrow> bs ! i \<Longrightarrow>
   gather bs xs ! rank bs i = xs ! i"
proof (induction bs xs arbitrary: i rule: gather.induct)
  case (1 m ms x xs)
  then show ?case
    by (cases i) (auto simp: rank_0 rank_Suc)
qed auto

lemma scatter_nth:
  "length bs = length xs \<Longrightarrow> length vs = mask_sum bs \<Longrightarrow> i < length xs \<Longrightarrow>
   scatter bs xs vs ! i = (if bs ! i then vs ! rank bs i else xs ! i)"
proof (induction bs xs vs arbitrary: i rule: scatter.induct)
  case (1 m ms x xs vs)
  then show ?case
    by (cases i; cases vs) (auto simp: rank_0 rank_Suc mask_sum_Cons)
qed auto

lemma scatter_map_gather_nth:
  assumes "length bs = length a" "i < length a"
  shows "scatter bs a (map f (gather bs a)) ! i = (if bs ! i then f (a ! i) else a ! i)"
proof -
  have len: "length (map f (gather bs a)) = mask_sum bs"
    using assms(1) by (simp add: length_gather)
  show ?thesis
  proof (cases "bs ! i")
    case True
    then have "rank bs i < mask_sum bs"
      using assms by (simp add: rank_less)
    then show ?thesis
      using True assms len by (simp add: scatter_nth length_gather gather_nth)
  next
    case False
    then show ?thesis
      using assms len by (simp add: scatter_nth)
  qed
qed



section \<open>The length of every column\<close>

lemma length_np_random_choice [simp]: "length (np_random_choice a n d) = n"
  by (simp add: np_random_choice_def)

lemma length_np_random_sample [simp]: "length (np_random_sample n d) = n"
  by (simp add: np_random_sample_def)

lemma nth_np_random_sample [simp]: "i < n \<Longrightarrow> np_random_sample n d ! i = d i"
  by (simp add: np_random_sample_def)

lemma length_tenure [simp]: "length (tenure n g) = n"
  by (simp add: tenure_def np_random_randint_def)

lemma length_sampled [simp]:
  "length (gender n g) = n" "length (senior_citizen n g) = n" "length (partner n g) = n"
  "length (dependents n g) = n" "length (phone_service n g) = n"
  "length (internet_service n g) = n" "length (online_security n g) = n"
  "length (online_backup n g) = n" "length (device_protection n g) = n"
  "length (tech_support n g) = n" "length (streaming_tv n g) = n"
  "length (streaming_movies n g) = n" "length (contract n g) = n"
  "length (paperless_billing n g) = n" "length (payment_method n g) = n"
  by (simp_all add: gender_def senior_citizen_def partner_def dependents_def phone_service_def
      internet_service_def online_security_def online_backup_def device_protection_def
      tech_support_def streaming_tv_def streaming_movies_def contract_def
      paperless_billing_def payment_method_def)

lemma length_monthly_charges_fiber [simp]: "length (monthly_charges_fiber n g) = n"
  by (simp add: monthly_charges_fiber_def masked_iadd_def length_scatter
      monthly_charges_base_def)

lemma length_monthly_charges_raw [simp]: "length (monthly_charges_raw n g) = n"
  by (simp add: monthly_charges_raw_def masked_isub_def length_scatter)

lemma length_monthly_charges [simp]: "length (monthly_charges n g) = n"
  by (simp add: monthly_charges_def)

lemma length_total_charges_noisy [simp]: "length (total_charges_noisy n g) = n"
  by (simp add: total_charges_noisy_def total_charges_product_def)

lemma length_total_charges_clamped [simp]: "length (total_charges_clamped n g) = n"
  by (simp add: total_charges_clamped_def masked_assign_scalar_def length_scatter)

lemma length_total_charges [simp]: "length (total_charges n g) = n"
  by (simp add: total_charges_def)

lemma length_churn_prob_1 [simp]: "length (churn_prob_1 n g) = n"
  by (simp add: churn_prob_1_def masked_iadd_scalar_def length_scatter churn_prob_0_def)

lemma length_churn_prob_2 [simp]: "length (churn_prob_2 n g) = n"
  by (simp add: churn_prob_2_def masked_iadd_scalar_def length_scatter)

lemma length_churn_prob_3 [simp]: "length (churn_prob_3 n g) = n"
  by (simp add: churn_prob_3_def masked_iadd_scalar_def length_scatter)

lemma length_churn_prob_4 [simp]: "length (churn_prob_4 n g) = n"
  by (simp add: churn_prob_4_def masked_iadd_scalar_def length_scatter)

lemma length_churn_prob [simp]: "length (churn_prob n g) = n"
  by (simp add: churn_prob_def masked_isub_scalar_def length_scatter)

lemma length_churn [simp]: "length (churn n g) = n"
  by (simp add: churn_def)

section \<open>Record by record\<close>

lemma churn_prob_nth:
  assumes "i < n"
  shows "churn_prob n g ! i =
         churn_prob_record (contract n g ! i) (tenure n g ! i) (monthly_charges n g ! i)
           (tech_support n g ! i)"
proof -
  have p1: "churn_prob_1 n g ! i =
      (if contract n g ! i = ''Month-to-month'' then fadd 0 (py_float (3 / 10)) else 0)"
    using assms
    by (simp add: churn_prob_1_def masked_iadd_scalar_def scatter_map_gather_nth churn_prob_0_def)
  have p2: "churn_prob_2 n g ! i =
      (if tenure n g ! i < 12 then fadd (churn_prob_1 n g ! i) (py_float (2 / 10))
       else churn_prob_1 n g ! i)"
    using assms
    by (simp add: churn_prob_2_def masked_iadd_scalar_def scatter_map_gather_nth)
  have p3: "churn_prob_3 n g ! i =
      (if 80 < monthly_charges n g ! i then fadd (churn_prob_2 n g ! i) (py_float (15 / 100))
       else churn_prob_2 n g ! i)"
    using assms
    by (simp add: churn_prob_3_def masked_iadd_scalar_def scatter_map_gather_nth)
  have p4: "churn_prob_4 n g ! i =
      (if tech_support n g ! i = ''No'' then fadd (churn_prob_3 n g ! i) (py_float (2 / 10))
       else churn_prob_3 n g ! i)"
    using assms
    by (simp add: churn_prob_4_def masked_iadd_scalar_def scatter_map_gather_nth)
  have p5: "churn_prob n g ! i =
      (if contract n g ! i = ''Two year'' then fsub (churn_prob_4 n g ! i) (py_float (3 / 10))
       else churn_prob_4 n g ! i)"
    using assms
    by (simp add: churn_prob_def masked_isub_scalar_def scatter_map_gather_nth)
  show ?thesis
    unfolding churn_prob_record_def Let_def p5 p4 p3 p2 p1 by simp
qed

lemma churn_nth:
  "i < n \<Longrightarrow> churn n g ! i = (if churn_draw g i < churn_prob n g ! i then 1 else 0)"
  by (simp add: churn_def)








lemma choice1_mem: "a \<noteq> [] \<Longrightarrow> choice1 a k \<in> set a"
  by (simp add: choice1_def)

lemma multiple_lines_body_inv:
  assumes "j < length ml" "\<forall>i<j. multiple_lines_ok phone ml i"
  shows "length (fst (multiple_lines_body phone draw j (ml, k))) = length ml
         \<and> (\<forall>i<Suc j. multiple_lines_ok phone (fst (multiple_lines_body phone draw j (ml, k))) i)"
proof -
  have new: "multiple_lines_ok phone (fst (multiple_lines_body phone draw j (ml, k))) j"
    using assms(1) choice1_mem [of "[''No'', ''Yes'']" "draw k"]
    by (auto simp: multiple_lines_body_def multiple_lines_ok_def u16_def)
  have old: "multiple_lines_ok phone (fst (multiple_lines_body phone draw j (ml, k))) i"
    if "i < j" for i
    using that assms by (auto simp: multiple_lines_body_def multiple_lines_ok_def)
  have len: "length (fst (multiple_lines_body phone draw j (ml, k))) = length ml"
    by (simp add: multiple_lines_body_def)
  show ?thesis
    using new old len by (auto simp: less_Suc_eq)
qed

lemma multiple_lines_loop_inv:
  "j \<le> n \<Longrightarrow>
   length (fst (fold (multiple_lines_body phone draw) [0..<j] (np_empty_u16 n, 0))) = n
   \<and> (\<forall>i<j. multiple_lines_ok phone
               (fst (fold (multiple_lines_body phone draw) [0..<j] (np_empty_u16 n, 0))) i)"
proof (induction j)
  case 0
  then show ?case by (simp add: np_empty_u16_def)
next
  case (Suc j)
  obtain ml k where st:
    "fold (multiple_lines_body phone draw) [0..<j] (np_empty_u16 n, 0) = (ml, k)"
    by (cases "fold (multiple_lines_body phone draw) [0..<j] (np_empty_u16 n, 0)")
  have ih: "length ml = n" "\<forall>i<j. multiple_lines_ok phone ml i"
    using Suc st by auto
  have "j < length ml" using Suc.prems ih(1) by simp
  from multiple_lines_body_inv [OF this ih(2), of draw k]
  show ?case by (simp add: st ih(1))
qed

lemma length_multiple_lines [simp]: "length (multiple_lines n g) = n"
  using multiple_lines_loop_inv [of n n] by (simp add: multiple_lines_def)


section \<open>The sample run, evaluated\<close>

lemma sample_categorical:
  "contract 2 rng_example = [''Month-to-month'', ''Two year'']"
  "tech_support 2 rng_example = [''No'', ''Yes'']"
  "internet_service 2 rng_example = [''Fiber optic'', ''No'']"
  "phone_service 2 rng_example = [''Yes'', ''No'']"
  "tenure 2 rng_example = [5, 25]"
  by code_simp+

lemma sample_multiple_lines: "multiple_lines 2 rng_example = [''Yes'', ''No phone service'']"
  by code_simp

lemma sample_monthly_charges: "monthly_charges 2 rng_example = [451 / 4, 75]"
  by code_simp


lemma sample_churn_prob:
  "churn_prob 2 rng_example =
     [1914029841632461 / 2251799813685248, - (5404319552844595 / 18014398509481984)]"
  by code_simp

lemma sample_churn: "churn 2 rng_example = [1, 0]"
  by code_simp

lemma sample_draws:
  "monthly_base_draw rng_example k = (if k = 0 then 201 / 2 else 181 / 2)" "fiber_draw rng_example k = 49 / 4"
  "no_internet_draw rng_example k = 31 / 2"
  "noise_draw rng_example k = (if k = 0 then 81 / 8 else - 5000)"
  "churn_draw rng_example k = 1 / 2"
  by (simp_all add: rng_example_def)

section \<open>The values the churn probability can take\<close>

lemma py_float_values:
  "py_float (3 / 10) = 5404319552844595 / 18014398509481984"
  "py_float (2 / 10) = 3602879701896397 / 18014398509481984"
  "py_float (15 / 100) = 5404319552844595 / 36028797018963968"
  "py_float (85 / 100) = 7656119366529843 / 9007199254740992"
  by code_simp+

lemma churn_prob_record_repr:
  "churn_prob_record c t m s =
   churn_prob_record (if c = ''Month-to-month'' \<or> c = ''Two year'' then c else ''One year'')
     (if t < 12 then 0 else 12) (if 80 < m then 81 else 0) (if s = ''No'' then s else ''Yes'')"
  by (simp add: churn_prob_record_def)

lemma churn_prob_record_monthly:
  "churn_prob_record ''Month-to-month'' 0 81 ''No'' = 1914029841632461 / 2251799813685248"
  "churn_prob_record ''Month-to-month'' 0 81 ''Yes'' = 5854679515581645 / 9007199254740992"
  "churn_prob_record ''Month-to-month'' 0 0 ''No'' = 3152519739159347 / 4503599627370496"
  "churn_prob_record ''Month-to-month'' 0 0 ''Yes'' = 1 / 2"
  "churn_prob_record ''Month-to-month'' 12 81 ''No'' = 1463669878895411 / 2251799813685248"
  "churn_prob_record ''Month-to-month'' 12 81 ''Yes'' = 2026619832316723 / 4503599627370496"
  "churn_prob_record ''Month-to-month'' 12 0 ''No'' = 1 / 2"
  "churn_prob_record ''Month-to-month'' 12 0 ''Yes'' = 5404319552844595 / 18014398509481984"
  by code_simp+

lemma churn_prob_record_one_year:
  "churn_prob_record ''One year'' 0 81 ''No'' = 2476979795053773 / 4503599627370496"
  "churn_prob_record ''One year'' 0 81 ''Yes'' = 3152519739159347 / 9007199254740992"
  "churn_prob_record ''One year'' 0 0 ''No'' = 3602879701896397 / 9007199254740992"
  "churn_prob_record ''One year'' 0 0 ''Yes'' = 3602879701896397 / 18014398509481984"
  "churn_prob_record ''One year'' 12 81 ''No'' = 3152519739159347 / 9007199254740992"
  "churn_prob_record ''One year'' 12 81 ''Yes'' = 5404319552844595 / 36028797018963968"
  "churn_prob_record ''One year'' 12 0 ''No'' = 3602879701896397 / 18014398509481984"
  "churn_prob_record ''One year'' 12 0 ''Yes'' = 0"
  by code_simp+

lemma churn_prob_record_two_year:
  "churn_prob_record ''Two year'' 0 81 ''No'' = 4503599627370497 / 18014398509481984"
  "churn_prob_record ''Two year'' 0 81 ''Yes'' = 900719925474099 / 18014398509481984"
  "churn_prob_record ''Two year'' 0 0 ''No'' = 1801439850948199 / 18014398509481984"
  "churn_prob_record ''Two year'' 0 0 ''Yes'' = - (900719925474099 / 9007199254740992)"
  "churn_prob_record ''Two year'' 12 81 ''No'' = 900719925474099 / 18014398509481984"
  "churn_prob_record ''Two year'' 12 81 ''Yes'' = - (5404319552844595 / 36028797018963968)"
  "churn_prob_record ''Two year'' 12 0 ''No'' = - (900719925474099 / 9007199254740992)"
  "churn_prob_record ''Two year'' 12 0 ''Yes'' = - (5404319552844595 / 18014398509481984)"
  by code_simp+

lemmas churn_prob_record_values =
  churn_prob_record_monthly churn_prob_record_one_year churn_prob_record_two_year

lemma churn_prob_record_lower: "- py_float (3 / 10) \<le> churn_prob_record c t m s"
  by (subst churn_prob_record_repr)
     (simp add: churn_prob_record_values py_float_values)

lemma churn_prob_record_upper:
  "churn_prob_record c t m s \<le> 1914029841632461 / 2251799813685248"
  by (subst churn_prob_record_repr)
     (simp add: churn_prob_record_values)

lemma churn_prob_record_max_iff:
  "churn_prob_record c t m s = 1914029841632461 / 2251799813685248
   \<longleftrightarrow> c = ''Month-to-month'' \<and> t < 12 \<and> 80 < m \<and> s = ''No''"
  by (subst churn_prob_record_repr)
     (simp add: churn_prob_record_values)

lemma churn_prob_record_min_iff:
  "churn_prob_record c t m s = - py_float (3 / 10)
   \<longleftrightarrow> c = ''Two year'' \<and> \<not> t < 12 \<and> \<not> 80 < m \<and> s \<noteq> ''No''"
  by (subst churn_prob_record_repr)
     (simp add: churn_prob_record_values py_float_values)

lemma churn_prob_below_one: "churn_prob_record c t m s < 1"
proof -
  have "churn_prob_record c t m s \<le> 1914029841632461 / 2251799813685248"
    by (rule churn_prob_record_upper)
  then show ?thesis by simp
qed

lemma churn_prob_max_value:
  "fadd (fadd (fadd (fadd 0 (py_float (3 / 10))) (py_float (2 / 10))) (py_float (15 / 100)))
     (py_float (2 / 10)) = 1914029841632461 / 2251799813685248"
  using churn_prob_record_monthly(1) by (simp add: churn_prob_record_def)

section \<open>The assembled table\<close>

lemma col_len_data_columns:
  "list_all (\<lambda>c. col_len (snd c) = n) (data_columns n g)"
  by (simp add: data_columns_def)

lemma pd_DataFrame_data_columns: "pd_DataFrame (data_columns n g) = Inr (data_columns n g)"
  by (simp add: pd_DataFrame_def data_columns_def)

lemma build_table_nat: "build_table (PyInt (int n)) g = Inr (data_columns n g)"
  by (simp add: build_table_def np_size_def pd_DataFrame_data_columns)

lemma nrows_data_columns: "nrows (data_columns n g) = n"
  by (simp add: nrows_def data_columns_def)

lemma names_data_columns:
  "map fst (data_columns n g) =
     [''gender'', ''SeniorCitizen'', ''Partner'', ''Dependents'', ''tenure'', ''PhoneService'',
      ''MultipleLines'', ''InternetService'', ''OnlineSecurity'', ''OnlineBackup'',
      ''DeviceProtection'', ''TechSupport'', ''StreamingTV'', ''StreamingMovies'', ''Contract'',
      ''PaperlessBilling'', ''PaymentMethod'', ''MonthlyCharges'', ''TotalCharges'', ''Churn'']"
  by (simp add: data_columns_def)

section \<open>Running the entry point\<close>

lemma np_size_negative: "k < 0 \<Longrightarrow> build_table (PyInt k) g = Inl ValueError"
  by (simp add: build_table_def np_size_def)

lemma np_size_float: "build_table (PyFloat x) g = Inl TypeError"
  by (simp add: build_table_def np_size_def)

lemma os_path_dirname_bare: "CHR ''/'' \<notin> set p \<Longrightarrow> os_path_dirname p = []"
proof -
  assume "CHR ''/'' \<notin> set p"
  then have tw: "takeWhile (\<lambda>c. \<not> is_sep c) (rev p) = rev p"
    by (auto simp: is_sep_def)
  show ?thesis
    by (simp add: os_path_dirname_def rfind_sep_def tw)
qed

lemma os_makedirs_empty: "os_makedirs fs [] exist_ok = (Some FileNotFoundError, fs)"
  by (simp add: os_makedirs.simps [of fs "[]"] makedirs_split_def os_path_split_def
      rfind_sep_def makedirs_leaf_def os_mkdir_def os_path_isdir_def)

lemma generate_bare_filename:
  assumes "CHR ''/'' \<notin> set p"
  shows "generate_customer_churn_data f (Some (PyInt (int n))) (Some p) g fs =
         (Some FileNotFoundError, fs)"
  using assms
  by (simp add: generate_customer_churn_data_def build_table_nat os_path_dirname_bare
      os_makedirs_empty)

lemma bare_filename_is_writable:
  assumes "p \<noteq> []" "CHR ''/'' \<notin> set p" "\<not> os_path_isdir fs p"
  shows "fst (write_file fs p content) = None"
proof -
  have "same_path p = p"
    using assms(1,2)
    by (cases p rule: rev_cases) (auto simp: same_path_def rstrip_sep_def is_sep_def)
  then show ?thesis
    using assms by (simp add: write_file_def parent_exists_def os_path_dirname_bare)
qed

lemma sample_run_zero:
  "generate_customer_churn_data ''src/data_generator.py'' (Some (PyInt 0))
     (Some ''out/data.csv'') rng_example fs_empty =
   (None,
    \<lparr>dirs = [''out''],
     files = [(''out/data.csv'',
               \<lparr>header = map fst (data_columns 0 rng_example), rows = []\<rparr>)]\<rparr>)"
  by code_simp

lemma sample_run_two:
  "generate_customer_churn_data ''src/data_generator.py'' (Some (PyInt 2))
     (Some ''out/data.csv'') rng_example fs_empty =
   (None,
    \<lparr>dirs = [''out''],
     files = [(''out/data.csv'',
       \<lparr>header =
          [''gender'', ''SeniorCitizen'', ''Partner'', ''Dependents'', ''tenure'',
           ''PhoneService'', ''MultipleLines'', ''InternetService'', ''OnlineSecurity'',
           ''OnlineBackup'', ''DeviceProtection'', ''TechSupport'', ''StreamingTV'',
           ''StreamingMovies'', ''Contract'', ''PaperlessBilling'', ''PaymentMethod'',
           ''MonthlyCharges'', ''TotalCharges'', ''Churn''],
        rows =
          [[StrCell ''Male'', IntCell 0, StrCell ''Yes'', StrCell ''No'', IntCell 5,
            StrCell ''Yes'', StrCell ''Yes'', StrCell ''Fiber optic'',
            StrCell ''No internet service'', StrCell ''Yes'', StrCell ''No'', StrCell ''No'',
            StrCell ''No'', StrCell ''No'', StrCell ''Month-to-month'', StrCell ''Yes'',
            StrCell ''Electronic check'', FloatCell (451 / 4),
            FloatCell (5047901863584727 / 8796093022208), IntCell 1],
           [StrCell ''Female'', IntCell 0, StrCell ''No'', StrCell ''No'', IntCell 25,
            StrCell ''No'', StrCell ''No phone service'', StrCell ''No'',
            StrCell ''No internet service'', StrCell ''Yes'', StrCell ''No'', StrCell ''Yes'',
            StrCell ''Yes'', StrCell ''No internet service'', StrCell ''Two year'',
            StrCell ''Yes'', StrCell ''Credit card (automatic)'', FloatCell 75,
            FloatCell 0, IntCell 0]]\<rparr>)]\<rparr>)"
  by code_simp

section \<open>Records whose label is decided by other columns\<close>






section \<open>What a run writes\<close>

lemma generate_run:
  "generate_customer_churn_data f (Some (PyInt (int n))) (Some p) g fs =
     (case os_makedirs fs (os_path_dirname p) True of
        (None, fs') \<Rightarrow> write_file fs' p (to_csv (data_columns n g) False)
      | (Some e, fs') \<Rightarrow> (Some e, fs'))"
  by (simp add: generate_customer_churn_data_def build_table_nat)

lemma write_file_written:
  "write_file fs p c = (None, fs') \<Longrightarrow> map_of (files fs') p = Some c"
  by (auto simp: write_file_def split: if_splits)

lemma generate_written:
  assumes "generate_customer_churn_data f (Some (PyInt (int n))) (Some p) g fs = (None, fs')"
  shows "map_of (files fs') p = Some (to_csv (data_columns n g) False)"
proof (cases "os_makedirs fs (os_path_dirname p) True")
  case (Pair r fs1)
  show ?thesis
  proof (cases r)
    case None
    then have "write_file fs1 p (to_csv (data_columns n g) False) = (None, fs')"
      using assms Pair by (simp add: generate_run)
    then show ?thesis by (rule write_file_written)
  next
    case (Some e)
    then show ?thesis
      using assms Pair by (simp add: generate_run)
  qed
qed

lemma to_csv_shape:
  "length (rows (to_csv (data_columns n g) False)) = n"
  "header (to_csv (data_columns n g) False) = map fst (data_columns n g)"
  by (simp_all add: to_csv_def nrows_data_columns)

lemma row_of_length: "length (row_of (data_columns n g) i) = 20"
  by (simp add: row_of_def data_columns_def)

lemma sample_default_dir:
  "os_path_dirname ''project/src/data_generator.py'' = ''project/src''"
  "os_path_dirname ''project/src/../data/customer_churn_data.csv'' = ''project/src/../data''"
  "os_makedirs fs_empty ''project/src/../data'' True =
     (None,
      \<lparr>dirs = [''project/src/../data'', ''project/src/..'', ''project/src'', ''project''],
       files = []\<rparr>)"
  by code_simp+

lemma sample_default_write:
  "write_file
     \<lparr>dirs = [''project/src/../data'', ''project/src/..'', ''project/src'', ''project''],
      files = []\<rparr>
     ''project/src/../data/customer_churn_data.csv'' c =
   (None,
    \<lparr>dirs = [''project/src/../data'', ''project/src/..'', ''project/src'', ''project''],
     files = [(''project/src/../data/customer_churn_data.csv'', c)]\<rparr>)"
  by (simp add: write_file_def parent_exists_def sample_default_dir os_path_isdir_def
      same_path_def rstrip_sep_def is_sep_def)

lemma sample_default_path:
  "os_path_join (os_path_dirname ''project/src/data_generator.py'')
     [''..'', ''data'', ''customer_churn_data.csv''] =
   ''project/src/../data/customer_churn_data.csv''"
  by code_simp

section \<open>The claims\<close>

text \<open>
  C1. For every generated record the churn probability is 0, plus 0.3 on a
  Month-to-month contract, plus 0.2 when the tenure is below 12, plus 0.15 when the
  monthly charges exceed 80, plus 0.2 without tech support, minus 0.3 on a Two year
  contract, added in this order in double precision and with no other adjustment; the
  label is 1 exactly when the record's draw from \<open>np.random.rand\<close> is strictly below
  that probability, and 0 otherwise.
\<close>

theorem churn_label_per_record:
  assumes "i < n"
  shows "churn_prob n g ! i =
           churn_prob_record (contract n g ! i) (tenure n g ! i) (monthly_charges n g ! i)
             (tech_support n g ! i)
         \<and> churn n g ! i = (if churn_draw g i < churn_prob n g ! i then 1 else 0)"
  using assms by (simp add: churn_prob_nth churn_nth)

theorem churn_label_per_record_witness:
  "(0::nat) < 2
   \<and> churn_prob 2 rng_example ! 0 = churn_prob_record ''Month-to-month'' 5 (451 / 4) ''No''
   \<and> churn_prob 2 rng_example ! 0 = 1914029841632461 / 2251799813685248
   \<and> churn 2 rng_example ! 0 = 1"
proof -
  have "(0::nat) < 2" by simp
  from churn_label_per_record [OF this, of rng_example]
  show ?thesis
    by (simp add: sample_categorical sample_monthly_charges sample_churn_prob sample_churn)
qed

text \<open>
  C2, as amended. For every sample count the assembled table has exactly that many rows
  and exactly twenty columns, each of that length, in the order of the dictionary of
  lines 129 to 150: \<open>tenure\<close> comes before \<open>PhoneService\<close> and \<open>PaperlessBilling\<close>
  comes after \<open>Contract\<close>. This is not the order of section 3 of the specification,
  which the counterexample below shows on a table of one row.
\<close>

theorem table_shape:
  "build_table (PyInt (int n)) g = Inr (data_columns n g)
   \<and> nrows (data_columns n g) = n
   \<and> (\<forall>c \<in> set (data_columns n g). col_len (snd c) = n)
   \<and> length (data_columns n g) = 20
   \<and> map fst (data_columns n g) =
       [''gender'', ''SeniorCitizen'', ''Partner'', ''Dependents'', ''tenure'',
        ''PhoneService'', ''MultipleLines'', ''InternetService'', ''OnlineSecurity'',
        ''OnlineBackup'', ''DeviceProtection'', ''TechSupport'', ''StreamingTV'',
        ''StreamingMovies'', ''Contract'', ''PaperlessBilling'', ''PaymentMethod'',
        ''MonthlyCharges'', ''TotalCharges'', ''Churn'']"
proof -
  have "\<forall>c \<in> set (data_columns n g). col_len (snd c) = n"
    using col_len_data_columns [of n g] by (simp add: list_all_iff)
  moreover have "length (data_columns n g) = 20"
    by (simp add: data_columns_def)
  ultimately show ?thesis
    by (simp add: build_table_nat nrows_data_columns names_data_columns)
qed

theorem table_shape_witness:
  "build_table (PyInt 2) rng_example = Inr (data_columns 2 rng_example)
   \<and> nrows (data_columns 2 rng_example) = 2
   \<and> (''tenure'', IntCol [5, 25]) \<in> set (data_columns 2 rng_example)
   \<and> col_len (IntCol [5, 25]) = 2
   \<and> map fst (data_columns 2 rng_example) ! 4 = ''tenure''"
proof -
  have mem: "(''tenure'', IntCol [5, 25]) \<in> set (data_columns 2 rng_example)"
    by (simp add: data_columns_def sample_categorical)
  from table_shape [of 2 rng_example] mem
  show ?thesis by simp
qed

theorem table_order_counterexample:
  "build_table (PyInt 1) rng_example = Inr (data_columns 1 rng_example)
   \<and> map fst (data_columns 1 rng_example) \<noteq> spec_section3_order
   \<and> map fst (data_columns 1 rng_example) ! 4 = ''tenure''
   \<and> spec_section3_order ! 4 = ''PhoneService''"
  using build_table_nat [of 1 rng_example]
  by (simp add: names_data_columns spec_section3_order_def)






text \<open>
  C5, as amended. The accumulated churn probability is not clamped to \<open>[0, 1]\<close>: some
  generated records have a negative probability, and such a record never churns, its
  draw being at least 0. No generated record has a probability above 1, or equal to 1:
  the counterexample below refutes the claim that one exists.
\<close>

theorem churn_prob_not_clamped:
  assumes "i < n"
  shows "churn_prob n g ! i < 1
       \<and> (churn_prob n g ! i < 0 \<and> 0 \<le> churn_draw g i \<longrightarrow> churn n g ! i = 0)
       \<and> (\<exists>n' g' i'. i' < n' \<and> churn_prob n' g' ! i' < 0)"
proof -
  have "churn_prob n g ! i < 1"
    using assms by (simp add: churn_prob_nth churn_prob_below_one)
  moreover have "churn_prob n g ! i < 0 \<and> 0 \<le> churn_draw g i \<longrightarrow> churn n g ! i = 0"
    using assms by (simp add: churn_nth)
  moreover have "(1::nat) < 2 \<and> churn_prob 2 rng_example ! 1 < 0"
    by (simp add: sample_churn_prob)
  then have "\<exists>n' g' i'. i' < n' \<and> churn_prob n' g' ! i' < 0"
    by blast
  ultimately show ?thesis by simp
qed

theorem churn_prob_not_clamped_witness:
  "(1::nat) < 2 \<and> churn_prob 2 rng_example ! 1 < 1 \<and> churn_prob 2 rng_example ! 1 < 0
   \<and> 0 \<le> churn_draw rng_example 1 \<and> churn 2 rng_example ! 1 = 0"
proof -
  have a: "(1::nat) < 2" by simp
  have b: "churn_prob 2 rng_example ! 1 < 0 \<and> 0 \<le> churn_draw rng_example 1"
    by (simp add: sample_churn_prob sample_draws)
  note t = churn_prob_not_clamped [OF a, of rng_example]
  have "churn 2 rng_example ! 1 = 0"
    using t [THEN conjunct2, THEN conjunct1] b by (rule mp)
  then show ?thesis
    using t [THEN conjunct1] a b by simp
qed

theorem churn_prob_above_one_counterexample:
  "\<not> (\<exists>n g i. i < n \<and> 1 < churn_prob n g ! i)"
proof
  assume "\<exists>n g i. i < n \<and> 1 < churn_prob n g ! i"
  then obtain n g i where "i < n" and "1 < churn_prob n g ! i"
    by blast
  then have "1 < churn_prob_record (contract n g ! i) (tenure n g ! i)
      (monthly_charges n g ! i) (tech_support n g ! i)"
    by (simp add: churn_prob_nth)
  then show False
    using churn_prob_below_one
      [of "contract n g ! i" "tenure n g ! i" "monthly_charges n g ! i" "tech_support n g ! i"]
    by simp
qed

text \<open>
  C6, as amended. For every negative sample count, and for every sample count that is a
  float, the first sampling call raises: no table is assembled, and the function returns
  the error with the file system untouched. A sample count of 0 is not rejected: the
  table is assembled with no rows, and the counterexample below is such a run, which
  creates the directory and writes a file that holds the header alone.
\<close>

theorem rejected_sample_counts:
  assumes "k < 0"
  shows "build_table (PyInt k) g = Inl ValueError
       \<and> generate_customer_churn_data f (Some (PyInt k)) p g fs = (Some ValueError, fs)
       \<and> build_table (PyFloat x) g = Inl TypeError
       \<and> generate_customer_churn_data f (Some (PyFloat x)) p g fs = (Some TypeError, fs)
       \<and> build_table (PyInt 0) g = Inr (data_columns 0 g)
       \<and> nrows (data_columns 0 g) = 0"
  using assms build_table_nat [of 0 g]
  by (simp add: generate_customer_churn_data_def np_size_negative np_size_float
      nrows_data_columns)

theorem rejected_sample_counts_witness:
  "(- 1 :: int) < 0
   \<and> build_table (PyInt (- 1)) rng_example = Inl ValueError
   \<and> generate_customer_churn_data ''src/data_generator.py'' (Some (PyInt (- 1)))
        (Some ''out/data.csv'') rng_example fs_empty = (Some ValueError, fs_empty)
   \<and> generate_customer_churn_data ''src/data_generator.py'' (Some (PyFloat (5 / 2)))
        (Some ''out/data.csv'') rng_example fs_empty = (Some TypeError, fs_empty)"
proof -
  have "(- 1 :: int) < 0" by simp
  from rejected_sample_counts [OF this, of rng_example "''src/data_generator.py''"
      "Some ''out/data.csv''" fs_empty "5 / 2"]
  show ?thesis by simp
qed

theorem zero_samples_counterexample:
  "generate_customer_churn_data ''src/data_generator.py'' (Some (PyInt 0))
     (Some ''out/data.csv'') rng_example fs_empty =
   (None,
    \<lparr>dirs = [''out''],
     files = [(''out/data.csv'',
               \<lparr>header = map fst (data_columns 0 rng_example), rows = []\<rparr>)]\<rparr>)
   \<and> length (map fst (data_columns 0 rng_example)) = 20"
  by (simp add: sample_run_zero names_data_columns)

text \<open>
  C7. The claim asks that a destination whose containing directory exists is written,
  a bare file name included: its directory is the current one. For the bare file name
  \<open>out.csv\<close> the generator does not get that far. \<open>os.path.dirname\<close> gives the empty
  string, \<open>os.makedirs\<close> of the empty string raises \<open>FileNotFoundError\<close> in spite of
  \<open>exist_ok=True\<close>, and nothing is written, although writing the file itself would have
  succeeded.
\<close>

theorem bare_filename_fails:
  "generate_customer_churn_data ''src/data_generator.py'' (Some (PyInt 2)) (Some ''out.csv'')
     rng_example fs_empty = (Some FileNotFoundError, fs_empty)
   \<and> os_path_dirname ''out.csv'' = []
   \<and> os_makedirs fs_empty [] True = (Some FileNotFoundError, fs_empty)
   \<and> fst (write_file fs_empty ''out.csv'' (to_csv (data_columns 2 rng_example) False)) = None"
proof -
  have bare: "CHR ''/'' \<notin> set ''out.csv''"
    by simp
  have "\<not> os_path_isdir fs_empty ''out.csv''"
    by (simp add: os_path_isdir_def fs_empty_def same_path_def rstrip_sep_def is_sep_def)
  then have "fst (write_file fs_empty ''out.csv'' (to_csv (data_columns 2 rng_example) False))
      = None"
    using bare by (intro bare_filename_is_writable) simp_all
  then show ?thesis
    using generate_bare_filename [OF bare, of "''src/data_generator.py''" 2 rng_example fs_empty]
      os_path_dirname_bare [OF bare]
    by (simp add: os_makedirs_empty)
qed

text \<open>
  C8. Called without arguments, the entry point assembles the table of 1000 records and
  writes it to \<open>customer_churn_data.csv\<close> in the directory \<open>data\<close> beside the directory
  of the script, that is to \<open>dirname(__file__)/../data/customer_churn_data.csv\<close>, after
  \<open>os.makedirs\<close> on that directory: a run that succeeds leaves there a file of 1000 rows.
  Run as a program, the script does the same with 2000 records and the same destination.
  Both are the entry point called with that count and that path.
\<close>

theorem entry_point_defaults:
  fixes f :: string
  defines "path \<equiv> os_path_join (os_path_dirname f) [''..'', ''data'', ''customer_churn_data.csv'']"
  shows "generate_customer_churn_data f None None g fs =
           (case os_makedirs fs (os_path_dirname path) True of
              (None, fs') \<Rightarrow> write_file fs' path (to_csv (data_columns 1000 g) False)
            | (Some e, fs') \<Rightarrow> (Some e, fs'))
       \<and> script_main f g fs =
           (case os_makedirs fs (os_path_dirname path) True of
              (None, fs') \<Rightarrow> write_file fs' path (to_csv (data_columns 2000 g) False)
            | (Some e, fs') \<Rightarrow> (Some e, fs'))
       \<and> (generate_customer_churn_data f None None g fs = (None, fs1)
            \<longrightarrow> map_of (files fs1) path = Some (to_csv (data_columns 1000 g) False))
       \<and> (script_main f g fs = (None, fs2)
            \<longrightarrow> map_of (files fs2) path = Some (to_csv (data_columns 2000 g) False))
       \<and> length (rows (to_csv (data_columns 1000 g) False)) = 1000
       \<and> length (rows (to_csv (data_columns 2000 g) False)) = 2000
       \<and> generate_customer_churn_data f None None g fs =
           generate_customer_churn_data f (Some (PyInt 1000)) (Some path) g fs
       \<and> script_main f g fs =
           generate_customer_churn_data f (Some (PyInt 2000)) (Some path) g fs
       \<and> path =
           (if os_path_dirname f = [] \<or> is_sep (last (os_path_dirname f)) then os_path_dirname f
            else os_path_dirname f @ ''/'') @ ''../data/customer_churn_data.csv''"
proof -
  have dflt: "generate_customer_churn_data f None None g fs =
      generate_customer_churn_data f (Some (PyInt (int 1000))) (Some path) g fs"
    by (simp add: generate_customer_churn_data_def path_def split: sum.split)
  have main: "script_main f g fs =
      generate_customer_churn_data f (Some (PyInt (int 2000))) (Some path) g fs"
    by (simp add: script_main_def path_def)
  have shape: "path =
      (if os_path_dirname f = [] \<or> is_sep (last (os_path_dirname f)) then os_path_dirname f
       else os_path_dirname f @ ''/'') @ ''../data/customer_churn_data.csv''"
    by (simp add: path_def os_path_join_def join_step_def is_sep_def)
  have w1: "map_of (files fs1) path = Some (to_csv (data_columns 1000 g) False)"
    if "generate_customer_churn_data f None None g fs = (None, fs1)"
    using that generate_written [of f 1000 path g fs fs1] unfolding dflt by simp
  have w2: "map_of (files fs2) path = Some (to_csv (data_columns 2000 g) False)"
    if "script_main f g fs = (None, fs2)"
    using that generate_written [of f 2000 path g fs fs2] unfolding main by simp
  show ?thesis
  proof (intro conjI impI)
    show "generate_customer_churn_data f None None g fs =
           (case os_makedirs fs (os_path_dirname path) True of
              (None, fs') \<Rightarrow> write_file fs' path (to_csv (data_columns 1000 g) False)
            | (Some e, fs') \<Rightarrow> (Some e, fs'))"
      unfolding dflt by (rule generate_run)
    show "script_main f g fs =
           (case os_makedirs fs (os_path_dirname path) True of
              (None, fs') \<Rightarrow> write_file fs' path (to_csv (data_columns 2000 g) False)
            | (Some e, fs') \<Rightarrow> (Some e, fs'))"
      unfolding main by (rule generate_run)
    show "map_of (files fs1) path = Some (to_csv (data_columns 1000 g) False)"
      if "generate_customer_churn_data f None None g fs = (None, fs1)"
      using that by (rule w1)
    show "map_of (files fs2) path = Some (to_csv (data_columns 2000 g) False)"
      if "script_main f g fs = (None, fs2)"
      using that by (rule w2)
    show "length (rows (to_csv (data_columns 1000 g) False)) = 1000"
      by (rule to_csv_shape)
    show "length (rows (to_csv (data_columns 2000 g) False)) = 2000"
      by (rule to_csv_shape)
    show "generate_customer_churn_data f None None g fs =
           generate_customer_churn_data f (Some (PyInt 1000)) (Some path) g fs"
      using dflt by simp
    show "script_main f g fs =
           generate_customer_churn_data f (Some (PyInt 2000)) (Some path) g fs"
      using main by simp
    show "path =
           (if os_path_dirname f = [] \<or> is_sep (last (os_path_dirname f)) then os_path_dirname f
            else os_path_dirname f @ ''/'') @ ''../data/customer_churn_data.csv''"
      by (rule shape)
  qed
qed

theorem entry_point_defaults_witness:
  "generate_customer_churn_data ''project/src/data_generator.py'' None None rng_example fs_empty =
     (None,
      \<lparr>dirs = [''project/src/../data'', ''project/src/..'', ''project/src'', ''project''],
       files = [(''project/src/../data/customer_churn_data.csv'',
                 to_csv (data_columns 1000 rng_example) False)]\<rparr>)
   \<and> map_of
        (files
          \<lparr>dirs = [''project/src/../data'', ''project/src/..'', ''project/src'', ''project''],
           files = [(''project/src/../data/customer_churn_data.csv'',
                     to_csv (data_columns 1000 rng_example) False)]\<rparr>)
        ''project/src/../data/customer_churn_data.csv'' =
       Some (to_csv (data_columns 1000 rng_example) False)
   \<and> length (rows (to_csv (data_columns 1000 rng_example) False)) = 1000
   \<and> script_main ''project/src/data_generator.py'' rng_example fs_empty =
     (None,
      \<lparr>dirs = [''project/src/../data'', ''project/src/..'', ''project/src'', ''project''],
       files = [(''project/src/../data/customer_churn_data.csv'',
                 to_csv (data_columns 2000 rng_example) False)]\<rparr>)
   \<and> length (rows (to_csv (data_columns 2000 rng_example) False)) = 2000"
proof -
  let ?fs = "\<lambda>c. \<lparr>dirs = [''project/src/../data'', ''project/src/..'', ''project/src'', ''project''],
       files = [(''project/src/../data/customer_churn_data.csv'', c)]\<rparr>"
  note t = entry_point_defaults [of "''project/src/data_generator.py''" rng_example fs_empty
      "?fs (to_csv (data_columns 1000 rng_example) False)"
      "?fs (to_csv (data_columns 2000 rng_example) False)", unfolded sample_default_path]
  have run1: "generate_customer_churn_data ''project/src/data_generator.py'' None None
      rng_example fs_empty = (None, ?fs (to_csv (data_columns 1000 rng_example) False))"
    using t [THEN conjunct1]
    by (simp add: sample_default_dir sample_default_write)
  have run2: "script_main ''project/src/data_generator.py'' rng_example fs_empty =
      (None, ?fs (to_csv (data_columns 2000 rng_example) False))"
    using t [THEN conjunct2, THEN conjunct1]
    by (simp add: sample_default_dir sample_default_write)
  have file1: "map_of (files (?fs (to_csv (data_columns 1000 rng_example) False)))
      ''project/src/../data/customer_churn_data.csv'' =
      Some (to_csv (data_columns 1000 rng_example) False)"
    using t [THEN conjunct2, THEN conjunct2, THEN conjunct1] run1 by (rule mp)
  have len1: "length (rows (to_csv (data_columns 1000 rng_example) False)) = 1000"
    using t by (elim conjE)
  have len2: "length (rows (to_csv (data_columns 2000 rng_example) False)) = 2000"
    using t by (elim conjE)
  show ?thesis
    using run1 run2 file1 len1 len2 by (intro conjI)
qed



text \<open>
  C10, as amended. For every generated record the accumulated churn probability lies
  between the doubles \<open>-0.3\<close> and \<open>0.8500000000000001\<close>. The upper bound is the
  double-precision sum \<open>0.3 + 0.2 + 0.15 + 0.2\<close>, one unit in the last place above the
  double \<open>0.85\<close>; it is attained exactly on a Month-to-month contract with tenure below
  12, monthly charges above 80 and no tech support, and it is below 1. The lower bound
  is attained exactly on a Two year contract with no positive adjustment. The
  counterexample below is a generated record whose probability exceeds \<open>0.85\<close>, taken
  as a rational number or as a double.
\<close>

theorem churn_prob_range:
  assumes "i < n"
  shows "- py_float (3 / 10) \<le> churn_prob n g ! i
       \<and> churn_prob n g ! i \<le> 1914029841632461 / 2251799813685248
       \<and> churn_prob n g ! i < 1
       \<and> (churn_prob n g ! i = 1914029841632461 / 2251799813685248
            \<longleftrightarrow> contract n g ! i = ''Month-to-month'' \<and> tenure n g ! i < 12
                \<and> 80 < monthly_charges n g ! i \<and> tech_support n g ! i = ''No'')
       \<and> (churn_prob n g ! i = - py_float (3 / 10)
            \<longleftrightarrow> contract n g ! i = ''Two year'' \<and> \<not> tenure n g ! i < 12
                \<and> \<not> 80 < monthly_charges n g ! i \<and> tech_support n g ! i \<noteq> ''No'')
       \<and> fadd (fadd (fadd (fadd 0 (py_float (3 / 10))) (py_float (2 / 10)))
                 (py_float (15 / 100))) (py_float (2 / 10))
           = 1914029841632461 / 2251799813685248
       \<and> py_float (85 / 100) + 1 / 2 ^ 53 = 1914029841632461 / 2251799813685248"
proof -
  have eq: "churn_prob n g ! i =
      churn_prob_record (contract n g ! i) (tenure n g ! i) (monthly_charges n g ! i)
        (tech_support n g ! i)"
    using assms by (rule churn_prob_nth)
  have ulp: "py_float (85 / 100) + 1 / 2 ^ 53 = 1914029841632461 / 2251799813685248"
    unfolding py_float_values by simp
  show ?thesis
    unfolding eq
    by (intro conjI churn_prob_record_lower churn_prob_record_upper churn_prob_below_one
        churn_prob_record_max_iff churn_prob_record_min_iff churn_prob_max_value ulp)
qed

theorem churn_prob_range_witness:
  "(0::nat) < 2 \<and> (1::nat) < 2
   \<and> churn_prob 2 rng_example ! 0 = 1914029841632461 / 2251799813685248
   \<and> contract 2 rng_example ! 0 = ''Month-to-month'' \<and> tenure 2 rng_example ! 0 < 12
   \<and> 80 < monthly_charges 2 rng_example ! 0 \<and> tech_support 2 rng_example ! 0 = ''No''
   \<and> churn_prob 2 rng_example ! 1 = - py_float (3 / 10)
   \<and> contract 2 rng_example ! 1 = ''Two year'' \<and> \<not> tenure 2 rng_example ! 1 < 12
   \<and> \<not> 80 < monthly_charges 2 rng_example ! 1 \<and> tech_support 2 rng_example ! 1 \<noteq> ''No''"
proof -
  have a: "(0::nat) < 2" and b: "(1::nat) < 2"
    by simp_all
  from churn_prob_range [OF a, of rng_example] churn_prob_range [OF b, of rng_example]
  show ?thesis
    by (simp add: sample_categorical sample_monthly_charges)
qed

theorem churn_prob_range_counterexample:
  "85 / 100 < churn_prob 2 rng_example ! 0
   \<and> py_float (85 / 100) < churn_prob 2 rng_example ! 0
   \<and> contract 2 rng_example ! 0 = ''Month-to-month'' \<and> tenure 2 rng_example ! 0 = 5
   \<and> monthly_charges 2 rng_example ! 0 = 451 / 4 \<and> tech_support 2 rng_example ! 0 = ''No''"
  unfolding py_float_values
  by (simp add: sample_churn_prob sample_categorical sample_monthly_charges)

end
